theory Spec2Isabelle
  imports Main
begin

section \<open>The MeOS information service client (utils/meos\_info\_service.py)\<close>

subsection \<open>Data model\<close>

text \<open>
  An \<open>xml.etree.ElementTree.Element\<close>: its fully qualified tag (\<open>{namespace}local\<close>),
  its attribute dictionary, its text (Python's \<open>None\<close> for an element without text) and
  its child elements in document order.
\<close>

datatype Element =
  Element (tag: string) (attrib: "string \<rightharpoonup> string") (elem_text: "string option")
    (children: "Element list")

text \<open>
  The exceptions that the client raises itself (\<open>ValueError\<close>, the \<open>KeyError\<close> of a
  dictionary index, the \<open>AttributeError\<close> of an attribute access on \<open>None\<close>, the
  \<open>IndexError\<close> of a list index) and the ones
  that the libraries it calls raise. Every constructor carries what \<open>str(e)\<close> is built
  from; \<open>HTTPError\<close> also carries the status code.
\<close>

datatype error =
    ValueError string
  | KeyError string
  | AttributeError string
  | IndexError string
  | HTTPError nat string
  | URLError string
  | ParseError string
  | LookupError string
  | UnicodeDecodeError string
  | OtherException string

text \<open>\<open>str(e)\<close>: a \<open>KeyError\<close> prints the \<open>repr\<close> of its key, the others their message.\<close>

fun str_of_error :: "error \<Rightarrow> string" where
  "str_of_error (ValueError m) = m"
| "str_of_error (KeyError k) = [CHR 0x27] @ k @ [CHR 0x27]"
| "str_of_error (AttributeError m) = m"
| "str_of_error (IndexError m) = m"
| "str_of_error (HTTPError c m) = m"
| "str_of_error (URLError m) = m"
| "str_of_error (ParseError m) = m"
| "str_of_error (LookupError m) = m"
| "str_of_error (UnicodeDecodeError m) = m"
| "str_of_error (OtherException m) = m"

text \<open>
  What \<open>urlopen\<close> returns, as far as the client reads it: the value of
  \<open>response.info().get_content_charset()\<close> and the bytes of \<open>response.read()\<close>.
\<close>

record http_response =
  content_charset :: "string option"
  body :: string

text \<open>
  The library calls of the client, as parameters of the model: \<open>imurl.URL(s)\<close> (which
  yields a URL or raises), \<open>urllib.request.Request(u)\<close> (which yields the request for a
  URL or raises), \<open>urlopen(req)\<close>, \<open>bytes.decode(encoding)\<close> and
  \<open>ElementTree.fromstring(data)\<close>.
\<close>

record world =
  URL :: "string \<Rightarrow> error + string"
  Request :: "string \<Rightarrow> error + string"
  urlopen :: "string \<Rightarrow> error + http_response"
  decode :: "string \<Rightarrow> string \<Rightarrow> error + string"
  fromstring :: "string \<Rightarrow> error + Element"

text \<open>The dictionary \<open>{'bibNumber': ..., 'relayLeg': ...}\<close> that a lookup returns.\<close>

record PreWarningData =
  bibNumber :: string
  relayLeg :: "string option"

text \<open>The fields of \<open>self\<close> that \<open>_parse_config\<close> sets.\<close>

record MeosInfoService =
  meos_url :: "string option"
  is_relay :: "bool option"

text \<open>
  Modelled from the spec: the class \<open>VerificationResult\<close>, declared in
  \<open>utils/config_definitions.py\<close>, which is not among the sources; after the spec's
  VerificationOutcome \<open>{ success: bool, message: string }\<close>, with the field names that
  the constructor calls of lines 52 and 55 use.
\<close>

record VerificationResult =
  message :: string
  status :: bool

text \<open>
  Modelled from the spec: the default of the constructor's parameter \<open>status\<close>, which
  line 52 leaves out; the spec has \<open>success=true\<close> for that result.
\<close>

definition VerificationResult_default_status :: bool where
  "VerificationResult_default_status = True"

subsection \<open>Constants and XML access\<close>

definition DEFAULT_RESPONSE_ENCODING :: string where
  "DEFAULT_RESPONSE_ENCODING = ''utf-8''"

text \<open>\<open>NS = {'ns': 'http://www.melin.nu/mop'}\<close>: the only prefix of the selectors.\<close>

definition NS_ns :: string where
  "NS_ns = ''http://www.melin.nu/mop''"

text \<open>
  The qualified tag that the selector \<open>'ns:' + name\<close> stands for under \<open>NS\<close>.
\<close>

definition qname :: "string \<Rightarrow> string" where
  "qname name = ''{'' @ NS_ns @ ''}'' @ name"

text \<open>
  \<open>element.find('ns:' + name, NS)\<close>: the first child of the element with that tag, or
  \<open>None\<close>. \<open>element.findall('ns:' + name, NS)\<close>: all such children, in document order.
\<close>

definition find_ns :: "Element \<Rightarrow> string \<Rightarrow> Element option" where
  "find_ns element name = List.find (\<lambda>c. tag c = qname name) (children element)"

definition findall_ns :: "Element \<Rightarrow> string \<Rightarrow> Element list" where
  "findall_ns element name = filter (\<lambda>c. tag c = qname name) (children element)"

text \<open>\<open>_get_data(element, 'ns:' + name, NS)\<close>, lines 25-30.\<close>

definition get_data :: "Element \<Rightarrow> string \<Rightarrow> string option" where
  "get_data element name =
     (case find_ns element name of
        Some data \<Rightarrow> elem_text data
      | None \<Rightarrow> None)"

subsection \<open>Query construction\<close>

text \<open>
  The class \<open>URL\<close> of lines 38-40 and 153-158 belongs to the package \<open>imurl\<close>, which is
  not among the sources. Its method \<open>set_query\<close> and its property \<open>url\<close> follow the spec's
  Query Builder (section 4.1): a request URL with all parameters percent-encoded and
  appended, the parameters already on the base preserved.
\<close>

text \<open>
  Modelled from the spec: the characters that percent-encoding leaves as they are (the
  encoder of \<open>imurl\<close> is missing), taken to be the unreserved characters of RFC 3986:
  letters, digits, \<open>-\<close>, \<open>.\<close>, \<open>_\<close> and \<open>~\<close>.
\<close>

definition unreserved :: "char \<Rightarrow> bool" where
  "unreserved c =
     (let n = (of_char c :: nat) in
        (65 \<le> n \<and> n \<le> 90) \<or> (97 \<le> n \<and> n \<le> 122) \<or> (48 \<le> n \<and> n \<le> 57)
        \<or> n = 45 \<or> n = 46 \<or> n = 95 \<or> n = 126)"

text \<open>
  Modelled from the spec: the hexadecimal digit (upper case) of a number below 16, for
  the missing encoder of \<open>imurl\<close>.
\<close>

definition hex_digit :: "nat \<Rightarrow> char" where
  "hex_digit n = char_of (if n < 10 then 48 + n else 55 + n)"

text \<open>
  Modelled from the spec: percent-encoding of one byte (the encoder of \<open>imurl\<close> is
  missing): an unreserved character stands for itself, any other byte is written as \<open>%\<close>
  and its two hexadecimal digits.
\<close>

definition percent_encode_char :: "char \<Rightarrow> string" where
  "percent_encode_char c =
     (if unreserved c then [c]
      else [CHR ''%'', hex_digit ((of_char c :: nat) div 16),
            hex_digit ((of_char c :: nat) mod 16)])"

text \<open>
  Modelled from the spec: percent-encoding of a parameter's key or value (the encoder of
  \<open>imurl\<close> is missing), byte by byte.
\<close>

fun percent_encode :: "string \<Rightarrow> string" where
  "percent_encode [] = []"
| "percent_encode (c # cs) = percent_encode_char c @ percent_encode cs"

text \<open>
  Modelled from the spec: \<open>url.set_query(key, v).url\<close> of the missing package \<open>imurl\<close>: the
  parameter is percent-encoded and appended, after \<open>?\<close> when the URL has no query yet and
  after \<open>&\<close> when it has one, so that the parameters already there are preserved.
\<close>

definition set_query :: "string \<Rightarrow> string \<Rightarrow> string \<Rightarrow> string" where
  "set_query url key v =
     url @ (if CHR ''?'' \<in> set url then ''&'' else ''?'')
         @ percent_encode key @ ''='' @ percent_encode v"

text \<open>Lines 153-156: the URL of a lookup, from the parsed base URL and the card number.\<close>

definition lookup_url :: "string \<Rightarrow> string \<Rightarrow> string" where
  "lookup_url url card_number =
     set_query (set_query url ''lookup'' ''competitor'') ''card'' card_number"

subsection \<open>The lookup\<close>

text \<open>\<open>MeosInfoService._has_no_result\<close>, lines 135-145.\<close>

definition has_no_result :: "Element \<Rightarrow> error + bool" where
  "has_no_result runner =
     (case find_ns runner ''Status'' of
        None \<Rightarrow> Inr False
      | Some statusElem \<Rightarrow>
          (case attrib statusElem ''code'' of
             None \<Rightarrow> Inl (KeyError ''code'')
           | Some st \<Rightarrow> if st = ''0'' then Inr True else Inr False))"

text \<open>
  \<open>next(filter(self._has_no_result, runners), None)\<close>, line 191: the filter is lazy, so
  the predicate runs on the runners in order up to the first one it accepts, and an
  exception it raises on the way ends the scan.
\<close>

fun next_filter_has_no_result :: "Element list \<Rightarrow> error + Element option" where
  "next_filter_has_no_result [] = Inr None"
| "next_filter_has_no_result (r # rs) =
     (case has_no_result r of
        Inl e \<Rightarrow> Inl e
      | Inr b \<Rightarrow> if b then Inr (Some r) else next_filter_has_no_result rs)"

text \<open>
  Lines 187-193: the value of the variable \<open>runner\<close>. The lookup reaches these lines
  with at least one runner; \<open>runners[0]\<close> of an empty list would raise \<open>IndexError\<close>.
\<close>

definition select_runner :: "Element list \<Rightarrow> error + Element option" where
  "select_runner runners =
     (if length runners > 1 then next_filter_has_no_result runners
      else (case runners of
              [] \<Rightarrow> Inl (IndexError ''list index out of range'')
            | r # _ \<Rightarrow> Inr (Some r)))"

text \<open>The message of the \<open>AttributeError\<close> that \<open>None.find\<close> raises.\<close>

definition NoneType_has_no_find :: string where
  "NoneType_has_no_find =
     [CHR 0x27] @ ''NoneType'' @ [CHR 0x27] @ '' object has no attribute ''
       @ [CHR 0x27] @ ''find'' @ [CHR 0x27]"

text \<open>
  Lines 195-207 for the selected \<open>runner\<close>; on \<open>None\<close>, \<open>runner.find\<close> raises
  \<open>AttributeError\<close>.
\<close>

definition runner_data :: "Element option \<Rightarrow> error + PreWarningData option" where
  "runner_data runner =
     (case runner of
        None \<Rightarrow> Inl (AttributeError NoneType_has_no_find)
      | Some r \<Rightarrow>
          (case find_ns r ''Team'' of
             None \<Rightarrow> Inr None
           | Some teamElem \<Rightarrow>
               (case attrib teamElem ''id'' of
                  None \<Rightarrow> Inl (KeyError ''id'')
                | Some bib_number \<Rightarrow>
                    Inr (Some \<lparr>bibNumber = bib_number, relayLeg = get_data r ''Leg''\<rparr>))))"

text \<open>Lines 180-207: from the parsed document to the result of the lookup.\<close>

definition resolve_root :: "Element \<Rightarrow> error + PreWarningData option" where
  "resolve_root root =
     (let runners = findall_ns root ''Competitor'' in
        if length runners = 0 then Inr None
        else (case select_runner runners of
                Inl e \<Rightarrow> Inl e
              | Inr runner \<Rightarrow> runner_data runner))"

text \<open>
  Lines 148-178 of \<open>MeosInfoService.get_event_race_pre_warning_data\<close>: the parsed
  response of the lookup, or the exception raised on the way, together with the requests
  passed to \<open>urlopen\<close>. The three \<open>except\<close> clauses of lines 167-176 log and re-raise.
\<close>

definition lookup_response ::
  "world \<Rightarrow> MeosInfoService \<Rightarrow> string \<Rightarrow> (error + Element) \<times> string list" where
  "lookup_response w self card_number =
     (case meos_url self of
        None \<Rightarrow> (Inl (ValueError ''MeOS Info server URL must be configured.''), [])
      | Some base \<Rightarrow>
          (case URL w base of
             Inl e \<Rightarrow> (Inl e, [])
           | Inr url \<Rightarrow>
               (case Request w (lookup_url url card_number) of
                  Inl e \<Rightarrow> (Inl e, [])
                | Inr req \<Rightarrow>
                    (case urlopen w req of
                       Inl e \<Rightarrow> (Inl e, [req])
                     | Inr response \<Rightarrow>
                         (let response_encoding =
                                (case content_charset response of
                                   None \<Rightarrow> DEFAULT_RESPONSE_ENCODING
                                 | Some c \<Rightarrow> c)
                          in case decode w (body response) response_encoding of
                               Inl e \<Rightarrow> (Inl e, [req])
                             | Inr data \<Rightarrow> (fromstring w data, [req]))))))"

text \<open>
  \<open>MeosInfoService.get_event_race_pre_warning_data\<close>, lines 147-207: what the call
  returns or raises, together with the requests it passed to \<open>urlopen\<close>.
\<close>

definition get_event_race_pre_warning_data ::
  "world \<Rightarrow> MeosInfoService \<Rightarrow> string \<Rightarrow> (error + PreWarningData option) \<times> string list" where
  "get_event_race_pre_warning_data w self card_number =
     (case lookup_response w self card_number of
        (Inl e, reqs) \<Rightarrow> (Inl e, reqs)
      | (Inr root, reqs) \<Rightarrow> (resolve_root root, reqs))"

subsection \<open>The verification of the configured URL\<close>

text \<open>
  The \<open>try\<close> block of \<open>_verify_info_service_url\<close>, lines 35-50: the value of \<open>compName\<close>,
  or the exception raised, and the requests passed to \<open>urlopen\<close>.
\<close>

definition verify_try :: "world \<Rightarrow> string option \<Rightarrow> (error + string option) \<times> string list" where
  "verify_try w url =
     (case url of
        None \<Rightarrow> (Inl (ValueError ''Info service URL must be configured.''), [])
      | Some s \<Rightarrow>
          (case URL w s of
             Inl e \<Rightarrow> (Inl e, [])
           | Inr u \<Rightarrow>
               (case Request w (set_query u ''get'' ''competition'') of
                  Inl e \<Rightarrow> (Inl e, [])
                | Inr req \<Rightarrow>
                    (case urlopen w req of
                       Inl e \<Rightarrow> (Inl e, [req])
                     | Inr response \<Rightarrow>
                         (let response_encoding =
                                (case content_charset response of
                                   None \<Rightarrow> DEFAULT_RESPONSE_ENCODING
                                 | Some c \<Rightarrow> c)
                          in case decode w (body response) response_encoding of
                               Inl e \<Rightarrow> (Inl e, [req])
                             | Inr data \<Rightarrow>
                                 (case fromstring w data of
                                    Inl e \<Rightarrow> (Inl e, [req])
                                  | Inr root \<Rightarrow> (Inr (get_data root ''competition''), [req])))))))"

text \<open>How an f-string prints a value that is a string or \<open>None\<close>.\<close>

definition format_str :: "string option \<Rightarrow> string" where
  "format_str v = (case v of None \<Rightarrow> ''None'' | Some s \<Rightarrow> s)"

text \<open>
  \<open>_verify_info_service_url\<close>, lines 33-55: the \<open>except Exception\<close> clause turns every
  exception of the \<open>try\<close> block into a result.
\<close>

definition verify_info_service_url :: "world \<Rightarrow> string option \<Rightarrow> VerificationResult \<times> string list" where
  "verify_info_service_url w url =
     (case verify_try w url of
        (Inr compName, reqs) \<Rightarrow>
          (\<lparr>message = ''URL is valid. Found competition '' @ [CHR 0x22] @ format_str compName
                        @ [CHR 0x22] @ ''.'',
            status = VerificationResult_default_status\<rparr>, reqs)
      | (Inl e, reqs) \<Rightarrow> (\<lparr>message = str_of_error e, status = False\<rparr>, reqs))"

subsection \<open>The spec's reading of a candidate's status\<close>

text \<open>
  The spec's \<open>statusCode: string|absent\<close> of a CompetitorRecord, the path
  \<open>Competitor/Status/@code\<close> of its schema table: the \<open>code\<close> attribute of the
  competitor's \<open>Status\<close> element, absent when there is no such element or attribute.
\<close>

definition spec_status_code :: "Element \<Rightarrow> string option" where
  "spec_status_code runner =
     (case find_ns runner ''Status'' of
        None \<Rightarrow> None
      | Some statusElem \<Rightarrow> attrib statusElem ''code'')"



subsection \<open>Sample responses\<close>

text \<open>Elements of the service's documents, for the concrete instances below.\<close>

definition status_elem :: "string \<Rightarrow> Element" where
  "status_elem code = Element (qname ''Status'') [''code'' \<mapsto> code] None []"

definition status_elem_without_code :: Element where
  "status_elem_without_code = Element (qname ''Status'') Map.empty None []"

definition team_elem :: "string \<Rightarrow> Element" where
  "team_elem ident = Element (qname ''Team'') [''id'' \<mapsto> ident] None []"

definition leg_elem :: "string \<Rightarrow> Element" where
  "leg_elem leg = Element (qname ''Leg'') Map.empty (Some leg) []"

definition competitor_elem :: "Element list \<Rightarrow> Element" where
  "competitor_elem cs = Element (qname ''Competitor'') Map.empty None cs"

definition competition_elem :: "string \<Rightarrow> Element" where
  "competition_elem name = Element (qname ''competition'') Map.empty (Some name) []"

definition mop_elem :: "Element list \<Rightarrow> Element" where
  "mop_elem cs = Element (qname ''MOPComplete'') Map.empty None cs"

text \<open>
  A world in which every URL is accepted, the server answers every request with the
  given charset and body, every body decodes to itself and parses to the given document.
\<close>

definition serving :: "string option \<Rightarrow> Element \<Rightarrow> world" where
  "serving charset root =
     \<lparr>URL = Inr, Request = Inr,
      urlopen = (\<lambda>req. Inr \<lparr>content_charset = charset, body = ''<MOPComplete/>''\<rparr>),
      decode = (\<lambda>b enc. Inr b),
      fromstring = (\<lambda>data. Inr root)\<rparr>"

text \<open>A world in which no server can be reached.\<close>

definition unreachable :: world where
  "unreachable =
     \<lparr>URL = Inr, Request = Inr,
      urlopen = (\<lambda>req. Inl (URLError ''<urlopen error [Errno 111] Connection refused>'')),
      decode = (\<lambda>b enc. Inr b),
      fromstring = (\<lambda>data. Inl (ParseError ''no element found''))\<rparr>"

text \<open>
  A world like \<open>serving\<close> whose bodies are not valid UTF-8: they decode under
  \<open>iso-8859-1\<close> only.
\<close>

definition serving_latin1 :: "string option \<Rightarrow> Element \<Rightarrow> world" where
  "serving_latin1 charset root =
     \<lparr>URL = Inr, Request = Inr,
      urlopen = (\<lambda>req. Inr \<lparr>content_charset = charset, body = ''<MOPComplete/>''\<rparr>),
      decode = (\<lambda>b enc. if enc = ''iso-8859-1'' then Inr b
                         else Inl (UnicodeDecodeError ''invalid start byte'')),
      fromstring = (\<lambda>data. Inr root)\<rparr>"

text \<open>A world in which \<open>Request\<close> rejects every URL, as it does for one without a scheme.\<close>

definition rejecting :: world where
  "rejecting =
     \<lparr>URL = Inr,
      Request = (\<lambda>u. Inl (ValueError ''unknown url type'')),
      urlopen = (\<lambda>req. Inl (URLError ''<urlopen error [Errno 111] Connection refused>'')),
      decode = (\<lambda>b enc. Inr b),
      fromstring = (\<lambda>data. Inl (ParseError ''no element found''))\<rparr>"

text \<open>A world in which the server answers every request with a body that is not XML.\<close>

definition serving_garbage :: world where
  "serving_garbage =
     \<lparr>URL = Inr, Request = Inr,
      urlopen = (\<lambda>req. Inr \<lparr>content_charset = None, body = ''not xml''\<rparr>),
      decode = (\<lambda>b enc. Inr b),
      fromstring = (\<lambda>data. Inl (ParseError ''syntax error: line 1, column 0''))\<rparr>"

definition configured :: MeosInfoService where
  "configured = \<lparr>meos_url = Some ''http://localhost:2009/meos'', is_relay = None\<rparr>"

section \<open>Properties\<close>

subsection \<open>Auxiliary facts\<close>

lemmas sample_defs =
  serving_def serving_latin1_def unreachable_def rejecting_def serving_garbage_def configured_def mop_elem_def competitor_elem_def
  competition_elem_def team_elem_def leg_elem_def status_elem_def status_elem_without_code_def
  qname_def NS_ns_def

lemmas xml_defs = find_ns_def findall_ns_def get_data_def

lemma lookup_result_of_response:
  "fst (lookup_response w self card_number) = Inr root \<Longrightarrow>
   fst (get_event_race_pre_warning_data w self card_number) = resolve_root root"
  by (cases "lookup_response w self card_number")
     (simp add: get_event_race_pre_warning_data_def)

lemma serving_response:
  "fst (lookup_response (serving charset root) configured card_number) = Inr root"
  by (simp add: lookup_response_def serving_def configured_def)

lemma next_filter_selected:
  "next_filter_has_no_result rs = Inr (Some r) \<Longrightarrow> has_no_result r = Inr True \<and> r \<in> set rs"
proof (induction rs)
  case Nil
  then show ?case by simp
next
  case (Cons a rs)
  then show ?case
    by (cases "has_no_result a") (auto split: if_splits)
qed


lemma has_no_result_True_iff:
  "has_no_result r = Inr True \<longleftrightarrow> spec_status_code r = Some ''0''"
  by (auto simp: has_no_result_def spec_status_code_def split: option.splits if_splits)



subsection \<open>No competitor, one competitor\<close>

text \<open>
  Claim C3. A lookup whose parsed response has no \<open>Competitor\<close> element returns \<open>None\<close>:
  it raises nothing.
\<close>

theorem lookup_no_competitor:
  assumes "fst (lookup_response w self card_number) = Inr root"
      and "findall_ns root ''Competitor'' = []"
    shows "fst (get_event_race_pre_warning_data w self card_number) = Inr None"
  using assms by (simp add: lookup_result_of_response resolve_root_def)

theorem lookup_no_competitor_witness:
  "fst (get_event_race_pre_warning_data (serving None (mop_elem [competition_elem ''Demo'']))
         configured ''123'') = Inr None"
proof -
  have "findall_ns (mop_elem [competition_elem ''Demo'']) ''Competitor'' = []"
    by (simp add: sample_defs xml_defs)
  from lookup_no_competitor [OF serving_response this] show ?thesis .
qed

text \<open>
  Claim C4. A lookup whose parsed response has exactly one \<open>Competitor\<close> element takes
  that element as the runner, whatever its status, and returns what lines 195-207 read
  from it: when it has a \<open>Team\<close> child with an \<open>id\<close> attribute, the dictionary of that
  id and of the text of its \<open>Leg\<close> child. The concrete instance after it has team id 42
  and leg 2, with a status code other than 0.
\<close>

theorem lookup_single_competitor:
  assumes "fst (lookup_response w self card_number) = Inr root"
      and "findall_ns root ''Competitor'' = [r]"
    shows "select_runner (findall_ns root ''Competitor'') = Inr (Some r)
         \<and> fst (get_event_race_pre_warning_data w self card_number) = runner_data (Some r)
         \<and> (\<forall>teamElem bib.
               find_ns r ''Team'' = Some teamElem \<and> attrib teamElem ''id'' = Some bib \<longrightarrow>
               fst (get_event_race_pre_warning_data w self card_number) =
                 Inr (Some \<lparr>bibNumber = bib, relayLeg = get_data r ''Leg''\<rparr>))"
  using assms
  by (simp add: lookup_result_of_response resolve_root_def select_runner_def runner_data_def)

theorem lookup_single_competitor_witness:
  "fst (get_event_race_pre_warning_data
         (serving None
            (mop_elem [competitor_elem [status_elem ''1'', team_elem ''42'', leg_elem ''2'']]))
         configured ''123'') = Inr (Some \<lparr>bibNumber = ''42'', relayLeg = Some ''2''\<rparr>)"
proof -
  let ?r = "competitor_elem [status_elem ''1'', team_elem ''42'', leg_elem ''2'']"
  have one: "findall_ns (mop_elem [?r]) ''Competitor'' = [?r]"
    by (simp add: sample_defs xml_defs)
  have team: "find_ns ?r ''Team'' = Some (team_elem ''42'')
              \<and> attrib (team_elem ''42'') ''id'' = Some ''42''"
    by (simp add: sample_defs xml_defs)
  have leg: "get_data ?r ''Leg'' = Some ''2''"
    by (simp add: sample_defs xml_defs)
  from lookup_single_competitor [OF serving_response one] team leg show ?thesis
    by metis
qed

text \<open>
  Claim C5. When the runner that the lookup selects has no \<open>Team\<close> child, the lookup
  returns \<open>None\<close> and raises nothing.
\<close>

theorem lookup_no_team:
  assumes "fst (lookup_response w self card_number) = Inr root"
      and "select_runner (findall_ns root ''Competitor'') = Inr (Some r)"
      and "find_ns r ''Team'' = None"
    shows "fst (get_event_race_pre_warning_data w self card_number) = Inr None"
  using assms
  by (simp add: lookup_result_of_response resolve_root_def runner_data_def Let_def)

theorem lookup_no_team_witness:
  "fst (get_event_race_pre_warning_data
         (serving None
            (mop_elem [competitor_elem [status_elem ''1''],
                       competitor_elem [status_elem ''0'', leg_elem ''2'']]))
         configured ''123'') = Inr None"
proof -
  let ?a = "competitor_elem [status_elem ''1'']"
  let ?b = "competitor_elem [status_elem ''0'', leg_elem ''2'']"
  have sel: "select_runner (findall_ns (mop_elem [?a, ?b]) ''Competitor'') = Inr (Some ?b)"
    by (simp add: sample_defs xml_defs select_runner_def has_no_result_def)
  have team: "find_ns ?b ''Team'' = None"
    by (simp add: sample_defs xml_defs)
  from lookup_no_team [OF serving_response sel team] show ?thesis .
qed

subsection \<open>A missing base URL\<close>

text \<open>
  Claim C7. A lookup made while \<open>meos_url\<close> is \<open>None\<close> raises the \<open>ValueError\<close> of line 151
  to its caller, whatever the world and the card number, and has passed no request to
  \<open>urlopen\<close>.
\<close>

theorem lookup_without_url:
  "get_event_race_pre_warning_data w \<lparr>meos_url = None, is_relay = r\<rparr> card_number =
     (Inl (ValueError ''MeOS Info server URL must be configured.''), [])"
  by (simp add: get_event_race_pre_warning_data_def lookup_response_def)

subsection \<open>Competitors without a status\<close>

text \<open>
  Claim C10. For a \<open>Competitor\<close> element without a \<open>Status\<close> child, \<open>_has_no_result\<close>
  returns \<open>False\<close>; so the scan of line 191 never yields it, and with more than one
  candidate it is never the selected runner.
\<close>

theorem status_less_never_selected:
  assumes "find_ns r ''Status'' = None"
    shows "has_no_result r = Inr False
         \<and> (\<forall>runners. next_filter_has_no_result runners \<noteq> Inr (Some r))
         \<and> (\<forall>runners. length runners > 1 \<longrightarrow> select_runner runners \<noteq> Inr (Some r))"
proof -
  have f: "has_no_result r = Inr False"
    using assms by (simp add: has_no_result_def)
  have n: "next_filter_has_no_result runners \<noteq> Inr (Some r)" for runners
    using next_filter_selected [of runners r] f by auto
  show ?thesis
    using f n by (simp add: select_runner_def)
qed

theorem status_less_never_selected_witness:
  "has_no_result (competitor_elem [team_elem ''42'']) = Inr False
   \<and> select_runner [competitor_elem [team_elem ''42''], competitor_elem [team_elem ''43'']]
       \<noteq> Inr (Some (competitor_elem [team_elem ''42'']))"
proof -
  have "find_ns (competitor_elem [team_elem ''42'']) ''Status'' = None"
    by (simp add: sample_defs xml_defs)
  from status_less_never_selected [OF this] show ?thesis
    by simp
qed

subsection \<open>More than one competitor\<close>

text \<open>
  With more than one candidate of which \<open>_has_no_result\<close> accepts none, the scan of line
  191 yields \<open>None\<close> and line 195 raises \<open>AttributeError\<close>.
\<close>

lemma next_filter_none:
  "(\<And>p. p \<in> set rs \<Longrightarrow> has_no_result p = Inr False) \<Longrightarrow>
   next_filter_has_no_result rs = Inr None"
  by (induction rs) simp_all

lemma unresolved_ambiguity_raises:
  assumes "fst (lookup_response w self card_number) = Inr root"
      and "length (findall_ns root ''Competitor'') > 1"
      and "\<And>p. p \<in> set (findall_ns root ''Competitor'') \<Longrightarrow> has_no_result p = Inr False"
    shows "fst (get_event_race_pre_warning_data w self card_number) =
             Inl (AttributeError NoneType_has_no_find)"
proof -
  have "next_filter_has_no_result (findall_ns root ''Competitor'') = Inr None"
    using assms(3) by (rule next_filter_none)
  with assms(1,2) show ?thesis
    by (auto simp add: lookup_result_of_response resolve_root_def select_runner_def
        runner_data_def Let_def)
qed

text \<open>
  Claim C1. The claim asks for a distinguishable outcome when there is more than one
  candidate and none has status code 0. The lookup instead raises \<open>AttributeError\<close>: here
  for two candidates of one team whose status codes are both 1.
\<close>

theorem lookup_unresolved_ambiguity_raises:
  "fst (get_event_race_pre_warning_data
         (serving None
            (mop_elem [competitor_elem [status_elem ''1'', team_elem ''42'', leg_elem ''1''],
                       competitor_elem [status_elem ''1'', team_elem ''42'', leg_elem ''2'']]))
         configured ''123'') = Inl (AttributeError NoneType_has_no_find)"
  unfolding lookup_result_of_response [OF serving_response]
  by (simp add: resolve_root_def select_runner_def runner_data_def has_no_result_def
      sample_defs xml_defs)




subsection \<open>The query URL\<close>

lemma percent_not_unreserved: "\<not> unreserved CHR ''%''"
  by (simp add: unreserved_def)

lemma of_char_less_256: "(of_char c :: nat) < 256"
proof -
  have "(of_char c :: nat) mod 256 = of_char c" by simp
  then show ?thesis
    by (metis mod_less_divisor zero_less_numeral)
qed

lemma hex_digit_inj:
  assumes "a < 16" "b < 16" "hex_digit a = hex_digit b"
  shows "a = b"
  using assms by (auto simp: hex_digit_def split: if_splits)

lemma percent_encode_char_inj:
  assumes "percent_encode_char a @ xs = percent_encode_char b @ ys"
  shows "a = b \<and> xs = ys"
proof (cases "unreserved a")
  case ua: True
  show ?thesis
  proof (cases "unreserved b")
    case True
    with ua assms show ?thesis by (simp add: percent_encode_char_def)
  next
    case False
    with ua assms have "a = CHR ''%''" by (simp add: percent_encode_char_def)
    with ua percent_not_unreserved show ?thesis by simp
  qed
next
  case na: False
  show ?thesis
  proof (cases "unreserved b")
    case True
    with na assms have "b = CHR ''%''" by (simp add: percent_encode_char_def)
    with True percent_not_unreserved show ?thesis by simp
  next
    case False
    let ?m = "of_char a :: nat" and ?n = "of_char b :: nat"
    from na False assms
    have hi: "hex_digit (?m div 16) = hex_digit (?n div 16)"
      and lo: "hex_digit (?m mod 16) = hex_digit (?n mod 16)"
      and rest: "xs = ys"
      by (simp_all add: percent_encode_char_def)
    have "?m div 16 < 16" "?n div 16 < 16"
      using of_char_less_256 [of a] of_char_less_256 [of b] by arith+
    then have d: "?m div 16 = ?n div 16"
      using hi by (rule hex_digit_inj)
    have "?m mod 16 < 16" "?n mod 16 < 16"
      by simp_all
    then have "?m mod 16 = ?n mod 16"
      using lo by (rule hex_digit_inj)
    with d have "?m = ?n"
      by (metis div_mult_mod_eq)
    then have "a = b" by simp
    with rest show ?thesis by simp
  qed
qed

lemma percent_encode_char_not_Nil: "percent_encode_char c \<noteq> []"
  by (simp add: percent_encode_char_def)

lemma percent_encode_inj: "percent_encode xs = percent_encode ys \<Longrightarrow> xs = ys"
proof (induction xs arbitrary: ys)
  case Nil
  then show ?case
    by (cases ys) (simp_all add: percent_encode_char_not_Nil)
next
  case (Cons x xs)
  show ?case
  proof (cases ys)
    case Nil
    with Cons.prems show ?thesis by (simp add: percent_encode_char_not_Nil)
  next
    case (Cons y ys')
    with Cons.prems
    have "percent_encode_char x @ percent_encode xs = percent_encode_char y @ percent_encode ys'"
      by simp
    then have "x = y \<and> percent_encode xs = percent_encode ys'"
      by (rule percent_encode_char_inj)
    with Cons.IH Cons show ?thesis by simp
  qed
qed

text \<open>
  Claim C9. For a fixed base URL, the URLs that lines 153-156 build for two distinct card
  numbers are distinct.
\<close>

theorem lookup_url_injective:
  assumes "card1 \<noteq> card2"
  shows "lookup_url url card1 \<noteq> lookup_url url card2"
proof
  assume "lookup_url url card1 = lookup_url url card2"
  then have "percent_encode card1 = percent_encode card2"
    by (simp add: lookup_url_def set_query_def)
  then have "card1 = card2" by (rule percent_encode_inj)
  with assms show False by simp
qed

theorem lookup_url_injective_witness:
  "lookup_url ''http://localhost:2009/meos'' ''2079749''
     \<noteq> lookup_url ''http://localhost:2009/meos'' ''2079750''"
proof -
  have "''2079749'' \<noteq> ''2079750''" by simp
  from lookup_url_injective [OF this] show ?thesis .
qed

subsection \<open>The verification of the configured URL\<close>

lemma verify_result_of_try:
  "fst (verify_info_service_url w url) =
     (case fst (verify_try w url) of
        Inl e \<Rightarrow> \<lparr>message = str_of_error e, status = False\<rparr>
      | Inr compName \<Rightarrow>
          \<lparr>message = ''URL is valid. Found competition '' @ [CHR 0x22] @ format_str compName
                       @ [CHR 0x22] @ ''.'',
           status = True\<rparr>)"
  by (cases "verify_try w url")
     (simp add: verify_info_service_url_def VerificationResult_default_status_def split: sum.split)

lemma verify_try_failures:
  "fst (verify_try w None) = Inl (ValueError ''Info service URL must be configured.'')"
  "URL w s = Inl e \<Longrightarrow> fst (verify_try w (Some s)) = Inl e"
  "URL w s = Inr u \<Longrightarrow> Request w (set_query u ''get'' ''competition'') = Inl e \<Longrightarrow>
     fst (verify_try w (Some s)) = Inl e"
  "URL w s = Inr u \<Longrightarrow> Request w (set_query u ''get'' ''competition'') = Inr req \<Longrightarrow>
     urlopen w req = Inl e \<Longrightarrow> fst (verify_try w (Some s)) = Inl e"
  by (simp_all add: verify_try_def)

lemma verify_try_malformed:
  assumes "URL w s = Inr u"
      and "Request w (set_query u ''get'' ''competition'') = Inr req"
      and "urlopen w req = Inr response"
      and "decode w (body response)
             (case content_charset response of None \<Rightarrow> ''utf-8'' | Some c \<Rightarrow> c) = Inr data"
      and "fromstring w data = Inl e"
    shows "fst (verify_try w (Some s)) = Inl e"
  using assms
  by (cases "content_charset response")
     (simp_all add: verify_try_def DEFAULT_RESPONSE_ENCODING_def)

lemma verify_failure:
  "fst (verify_try w url) = Inl e \<Longrightarrow>
   fst (verify_info_service_url w url) = \<lparr>message = str_of_error e, status = False\<rparr>"
  by (simp add: verify_result_of_try)

lemma verify_success:
  "fst (verify_try w url) = Inr (Some name) \<Longrightarrow>
   fst (verify_info_service_url w url) =
     \<lparr>message = ''URL is valid. Found competition '' @ [CHR 0x22] @ name @ [CHR 0x22] @ ''.'',
      status = True\<rparr>"
  by (simp add: verify_result_of_try format_str_def)

lemma verify_try_undecodable:
  assumes "URL w s = Inr u"
      and "Request w (set_query u ''get'' ''competition'') = Inr req"
      and "urlopen w req = Inr response"
      and "decode w (body response)
             (case content_charset response of None \<Rightarrow> ''utf-8'' | Some c \<Rightarrow> c) = Inl e"
    shows "fst (verify_try w (Some s)) = Inl e"
  using assms
  by (cases "content_charset response")
     (simp_all add: verify_try_def DEFAULT_RESPONSE_ENCODING_def)

lemma verify_status_iff:
  "status (fst (verify_info_service_url w url)) \<longleftrightarrow>
     (\<exists>compName. fst (verify_try w url) = Inr compName)"
  by (cases "fst (verify_try w url)") (simp_all add: verify_result_of_try)

text \<open>
  Claim C6. The claim has the verification report a success with a message that names
  the competition, and a failure for a response without the competition field. For a
  well-formed response without a \<open>competition\<close> element, \<open>_get_data\<close> returns \<open>None\<close> (line
  30), line 52 does not check it, and the result is a success whose message prints
  \<open>None\<close> as the competition.
\<close>

theorem verify_missing_competition_reported_valid:
  "get_data (mop_elem []) ''competition'' = None
   \<and> fst (verify_info_service_url (serving None (mop_elem [])) (Some ''http://localhost:2009/meos''))
       = \<lparr>message = ''URL is valid. Found competition '' @ [CHR 0x22] @ ''None'' @ [CHR 0x22] @ ''.'',
          status = True\<rparr>"
  by (simp add: verify_result_of_try verify_try_def format_str_def sample_defs xml_defs)

text \<open>
  What the verification does otherwise. It returns a \<open>VerificationResult\<close> whatever the
  world and the URL, since the clause of line 53 catches every \<open>Exception\<close> of the \<open>try\<close>
  block, and its status says whether the block ran to its end. When the block raises
  \<open>e\<close>, the result has status \<open>False\<close> and the message \<open>str(e)\<close>: so for the URL \<open>None\<close>,
  for a URL that \<open>URL\<close> or \<open>Request\<close> rejects, for a host that \<open>urlopen\<close> cannot reach,
  for a body that \<open>decode\<close> rejects and for a text that \<open>fromstring\<close> rejects. When the
  block finds a \<open>competition\<close> element with a text, the result has status \<open>True\<close> and a
  message with that text.
\<close>

theorem verify_outcome:
  "(status (fst (verify_info_service_url w url)) \<longleftrightarrow>
      (\<exists>compName. fst (verify_try w url) = Inr compName))
   \<and> (\<forall>e. fst (verify_try w url) = Inl e \<longrightarrow>
        fst (verify_info_service_url w url) = \<lparr>message = str_of_error e, status = False\<rparr>)
   \<and> (\<forall>name. fst (verify_try w url) = Inr (Some name) \<longrightarrow>
        fst (verify_info_service_url w url) =
          \<lparr>message = ''URL is valid. Found competition '' @ [CHR 0x22] @ name @ [CHR 0x22] @ ''.'',
           status = True\<rparr>)
   \<and> (url = None \<longrightarrow>
        fst (verify_info_service_url w url) =
          \<lparr>message = ''Info service URL must be configured.'', status = False\<rparr>)
   \<and> (\<forall>s e. url = Some s \<and> URL w s = Inl e \<longrightarrow>
        fst (verify_info_service_url w url) = \<lparr>message = str_of_error e, status = False\<rparr>)
   \<and> (\<forall>s u e. url = Some s \<and> URL w s = Inr u
          \<and> Request w (set_query u ''get'' ''competition'') = Inl e \<longrightarrow>
        fst (verify_info_service_url w url) = \<lparr>message = str_of_error e, status = False\<rparr>)
   \<and> (\<forall>s u req e. url = Some s \<and> URL w s = Inr u
          \<and> Request w (set_query u ''get'' ''competition'') = Inr req \<and> urlopen w req = Inl e \<longrightarrow>
        fst (verify_info_service_url w url) = \<lparr>message = str_of_error e, status = False\<rparr>)
   \<and> (\<forall>s u req response e. url = Some s \<and> URL w s = Inr u
          \<and> Request w (set_query u ''get'' ''competition'') = Inr req \<and> urlopen w req = Inr response
          \<and> decode w (body response)
               (case content_charset response of None \<Rightarrow> ''utf-8'' | Some c \<Rightarrow> c) = Inl e \<longrightarrow>
        fst (verify_info_service_url w url) = \<lparr>message = str_of_error e, status = False\<rparr>)
   \<and> (\<forall>s u req response data e. url = Some s \<and> URL w s = Inr u
          \<and> Request w (set_query u ''get'' ''competition'') = Inr req \<and> urlopen w req = Inr response
          \<and> decode w (body response)
               (case content_charset response of None \<Rightarrow> ''utf-8'' | Some c \<Rightarrow> c) = Inr data
          \<and> fromstring w data = Inl e \<longrightarrow>
        fst (verify_info_service_url w url) = \<lparr>message = str_of_error e, status = False\<rparr>)"
proof (intro conjI allI impI)
  show "status (fst (verify_info_service_url w url)) \<longleftrightarrow>
          (\<exists>compName. fst (verify_try w url) = Inr compName)"
    by (rule verify_status_iff)
next
  fix e assume "fst (verify_try w url) = Inl e"
  then show "fst (verify_info_service_url w url) = \<lparr>message = str_of_error e, status = False\<rparr>"
    by (rule verify_failure)
next
  fix name assume "fst (verify_try w url) = Inr (Some name)"
  then show "fst (verify_info_service_url w url) =
      \<lparr>message = ''URL is valid. Found competition '' @ [CHR 0x22] @ name @ [CHR 0x22] @ ''.'',
       status = True\<rparr>"
    by (rule verify_success)
next
  assume "url = None"
  then show "fst (verify_info_service_url w url) =
      \<lparr>message = ''Info service URL must be configured.'', status = False\<rparr>"
    using verify_failure [OF verify_try_failures(1), of w] by simp
next
  fix s e assume "url = Some s \<and> URL w s = Inl e"
  then show "fst (verify_info_service_url w url) = \<lparr>message = str_of_error e, status = False\<rparr>"
    using verify_failure [OF verify_try_failures(2), of w s e] by simp
next
  fix s u e
  assume "url = Some s \<and> URL w s = Inr u
          \<and> Request w (set_query u ''get'' ''competition'') = Inl e"
  then show "fst (verify_info_service_url w url) = \<lparr>message = str_of_error e, status = False\<rparr>"
    using verify_failure [OF verify_try_failures(3), of w s u e] by simp
next
  fix s u req e
  assume "url = Some s \<and> URL w s = Inr u
          \<and> Request w (set_query u ''get'' ''competition'') = Inr req \<and> urlopen w req = Inl e"
  then show "fst (verify_info_service_url w url) = \<lparr>message = str_of_error e, status = False\<rparr>"
    using verify_failure [OF verify_try_failures(4), of w s u req e] by simp
next
  fix s u req response e
  assume "url = Some s \<and> URL w s = Inr u
          \<and> Request w (set_query u ''get'' ''competition'') = Inr req \<and> urlopen w req = Inr response
          \<and> decode w (body response)
               (case content_charset response of None \<Rightarrow> ''utf-8'' | Some c \<Rightarrow> c) = Inl e"
  then show "fst (verify_info_service_url w url) = \<lparr>message = str_of_error e, status = False\<rparr>"
    using verify_failure [OF verify_try_undecodable, of w s u req response e] by simp
next
  fix s u req response data e
  assume "url = Some s \<and> URL w s = Inr u
          \<and> Request w (set_query u ''get'' ''competition'') = Inr req \<and> urlopen w req = Inr response
          \<and> decode w (body response)
               (case content_charset response of None \<Rightarrow> ''utf-8'' | Some c \<Rightarrow> c) = Inr data
          \<and> fromstring w data = Inl e"
  then show "fst (verify_info_service_url w url) = \<lparr>message = str_of_error e, status = False\<rparr>"
    using verify_failure [OF verify_try_malformed, of w s u req response data e] by simp
qed

theorem verify_outcome_witness:
  "fst (verify_info_service_url (serving None (mop_elem [competition_elem ''Demo'']))
         (Some ''http://localhost:2009/meos''))
     = \<lparr>message = ''URL is valid. Found competition '' @ [CHR 0x22] @ ''Demo'' @ [CHR 0x22] @ ''.'',
        status = True\<rparr>
   \<and> fst (verify_info_service_url unreachable None)
     = \<lparr>message = ''Info service URL must be configured.'', status = False\<rparr>
   \<and> fst (verify_info_service_url rejecting (Some ''localhost:2009/meos''))
     = \<lparr>message = ''unknown url type'', status = False\<rparr>
   \<and> fst (verify_info_service_url unreachable (Some ''http://localhost:2009/meos''))
     = \<lparr>message = ''<urlopen error [Errno 111] Connection refused>'', status = False\<rparr>
   \<and> fst (verify_info_service_url (serving_latin1 None (mop_elem []))
           (Some ''http://localhost:2009/meos''))
     = \<lparr>message = ''invalid start byte'', status = False\<rparr>
   \<and> fst (verify_info_service_url serving_garbage (Some ''http://localhost:2009/meos''))
     = \<lparr>message = ''syntax error: line 1, column 0'', status = False\<rparr>"
proof -
  let ?base = "''http://localhost:2009/meos''"
  have ok: "fst (verify_try (serving None (mop_elem [competition_elem ''Demo''])) (Some ?base))
              = Inr (Some ''Demo'')"
    by (simp add: verify_try_def sample_defs xml_defs)
  have rejected: "Some ''localhost:2009/meos'' = Some ''localhost:2009/meos''
      \<and> URL rejecting ''localhost:2009/meos'' = Inr ''localhost:2009/meos''
      \<and> Request rejecting (set_query ''localhost:2009/meos'' ''get'' ''competition'')
          = Inl (ValueError ''unknown url type'')"
    by (simp add: rejecting_def)
  have down: "Some ?base = Some ?base \<and> URL unreachable ?base = Inr ?base
      \<and> Request unreachable (set_query ?base ''get'' ''competition'')
          = Inr (set_query ?base ''get'' ''competition'')
      \<and> urlopen unreachable (set_query ?base ''get'' ''competition'')
          = Inl (URLError ''<urlopen error [Errno 111] Connection refused>'')"
    by (simp add: unreachable_def)
  have undecodable: "Some ?base = Some ?base
      \<and> URL (serving_latin1 None (mop_elem [])) ?base = Inr ?base
      \<and> Request (serving_latin1 None (mop_elem [])) (set_query ?base ''get'' ''competition'')
          = Inr (set_query ?base ''get'' ''competition'')
      \<and> urlopen (serving_latin1 None (mop_elem [])) (set_query ?base ''get'' ''competition'')
          = Inr \<lparr>content_charset = None, body = ''<MOPComplete/>''\<rparr>
      \<and> decode (serving_latin1 None (mop_elem []))
            (body \<lparr>content_charset = None, body = ''<MOPComplete/>''\<rparr>)
            (case content_charset \<lparr>content_charset = None, body = ''<MOPComplete/>''\<rparr> of
               None \<Rightarrow> ''utf-8'' | Some c \<Rightarrow> c)
          = Inl (UnicodeDecodeError ''invalid start byte'')"
    by (simp add: serving_latin1_def)
  have garbage: "Some ?base = Some ?base
      \<and> URL serving_garbage ?base = Inr ?base
      \<and> Request serving_garbage (set_query ?base ''get'' ''competition'')
          = Inr (set_query ?base ''get'' ''competition'')
      \<and> urlopen serving_garbage (set_query ?base ''get'' ''competition'')
          = Inr \<lparr>content_charset = None, body = ''not xml''\<rparr>
      \<and> decode serving_garbage (body \<lparr>content_charset = None, body = ''not xml''\<rparr>)
            (case content_charset \<lparr>content_charset = None, body = ''not xml''\<rparr> of
               None \<Rightarrow> ''utf-8'' | Some c \<Rightarrow> c)
          = Inr ''not xml''
      \<and> fromstring serving_garbage ''not xml''
          = Inl (ParseError ''syntax error: line 1, column 0'')"
    by (simp add: serving_garbage_def)
  note c = conjunct2 [THEN conjunct1]
  note found = verify_outcome [THEN conjunct2, THEN c, rule_format, OF ok]
  note missing = verify_outcome [of unreachable None, THEN conjunct2, THEN conjunct2, THEN c,
      rule_format, OF refl]
  note no_scheme = verify_outcome [THEN conjunct2, THEN conjunct2, THEN conjunct2,
      THEN conjunct2, THEN c, rule_format, OF rejected]
  note no_host = verify_outcome [THEN conjunct2, THEN conjunct2, THEN conjunct2,
      THEN conjunct2, THEN conjunct2, THEN c, rule_format, OF down]
  note no_text = verify_outcome [THEN conjunct2, THEN conjunct2, THEN conjunct2,
      THEN conjunct2, THEN conjunct2, THEN conjunct2, THEN c, rule_format, OF undecodable]
  note no_xml = verify_outcome [THEN conjunct2, THEN conjunct2, THEN conjunct2,
      THEN conjunct2, THEN conjunct2, THEN conjunct2, THEN conjunct2, THEN conjunct2,
      rule_format, OF garbage]
  from found missing no_scheme no_host no_text no_xml show ?thesis
    by simp
qed

subsection \<open>The encoding of the response\<close>

text \<open>
  Claim C8. Once \<open>urlopen\<close> has answered, the lookup and the verification both decode
  the body with the charset that the response advertises, and with \<open>utf-8\<close> when it
  advertises none: what each of them goes on with is the result of that one call of
  \<open>decode\<close>.
\<close>

theorem response_charset_used:
  assumes "urlopen w req = Inr response"
  shows "(\<forall>base url. meos_url self = Some base \<and> URL w base = Inr url
            \<and> Request w (lookup_url url card_number) = Inr req \<longrightarrow>
          fst (lookup_response w self card_number) =
            (case decode w (body response)
                    (case content_charset response of Some c \<Rightarrow> c | None \<Rightarrow> ''utf-8'') of
               Inl e \<Rightarrow> Inl e
             | Inr data \<Rightarrow> fromstring w data))
       \<and> (\<forall>s u. URL w s = Inr u \<and> Request w (set_query u ''get'' ''competition'') = Inr req \<longrightarrow>
          fst (verify_try w (Some s)) =
            (case decode w (body response)
                    (case content_charset response of Some c \<Rightarrow> c | None \<Rightarrow> ''utf-8'') of
               Inl e \<Rightarrow> Inl e
             | Inr data \<Rightarrow>
                 (case fromstring w data of
                    Inl e \<Rightarrow> Inl e
                  | Inr root \<Rightarrow> Inr (get_data root ''competition''))))"
  using assms
  by (cases "content_charset response")
     (simp_all add: lookup_response_def verify_try_def DEFAULT_RESPONSE_ENCODING_def
        split: sum.split)

theorem response_charset_used_witness:
  "fst (lookup_response (serving_latin1 (Some ''iso-8859-1'') (mop_elem [])) configured ''123'')
     = Inr (mop_elem [])
   \<and> fst (lookup_response (serving_latin1 None (mop_elem [])) configured ''123'')
     = Inl (UnicodeDecodeError ''invalid start byte'')
   \<and> fst (verify_try (serving_latin1 (Some ''iso-8859-1'') (mop_elem [competition_elem ''Demo'']))
            (Some ''http://localhost:2009/meos''))
     = Inr (Some ''Demo'')
   \<and> fst (verify_try (serving_latin1 None (mop_elem [competition_elem ''Demo'']))
            (Some ''http://localhost:2009/meos''))
     = Inl (UnicodeDecodeError ''invalid start byte'')"
proof -
  let ?base = "''http://localhost:2009/meos''"
  have opened: "urlopen (serving_latin1 charset root) req
                  = Inr \<lparr>content_charset = charset, body = ''<MOPComplete/>''\<rparr>"
    for charset root req
    by (simp add: serving_latin1_def)
  have asked: "meos_url configured = Some ?base
               \<and> URL (serving_latin1 charset root) ?base = Inr ?base
               \<and> Request (serving_latin1 charset root) (lookup_url ?base ''123'')
                   = Inr (lookup_url ?base ''123'')"
    for charset root
    by (simp add: serving_latin1_def configured_def)
  have probed: "URL (serving_latin1 charset root) ?base = Inr ?base
               \<and> Request (serving_latin1 charset root) (set_query ?base ''get'' ''competition'')
                   = Inr (set_query ?base ''get'' ''competition'')"
    for charset root
    by (simp add: serving_latin1_def)
  note lookup = response_charset_used [OF opened, THEN conjunct1, rule_format, OF asked]
  note verify = response_charset_used [OF opened, THEN conjunct2, rule_format, OF probed]
  have name: "get_data (mop_elem [competition_elem ''Demo'']) ''competition'' = Some ''Demo''"
    by (simp add: sample_defs xml_defs)
  have 1: "fst (lookup_response (serving_latin1 (Some ''iso-8859-1'') (mop_elem [])) configured ''123'')
     = Inr (mop_elem [])"
    unfolding lookup by (simp add: serving_latin1_def)
  have 2: "fst (lookup_response (serving_latin1 None (mop_elem [])) configured ''123'')
     = Inl (UnicodeDecodeError ''invalid start byte'')"
    unfolding lookup by (simp add: serving_latin1_def)
  have 3: "fst (verify_try (serving_latin1 (Some ''iso-8859-1'') (mop_elem [competition_elem ''Demo'']))
            (Some ''http://localhost:2009/meos''))
     = Inr (Some ''Demo'')"
    unfolding verify by (simp add: serving_latin1_def name)
  have 4: "fst (verify_try (serving_latin1 None (mop_elem [competition_elem ''Demo'']))
            (Some ''http://localhost:2009/meos''))
     = Inl (UnicodeDecodeError ''invalid start byte'')"
    unfolding verify by (simp add: serving_latin1_def)
  from 1 2 3 4 show ?thesis by simp
qed

subsection \<open>Further properties of the lookup\<close>

text \<open>
  With more than one candidate, a runner that lines 187-191 select is one of the
  candidates and has the status code 0.
\<close>

theorem selected_runner_has_no_result:
  assumes "length runners > 1"
      and "select_runner runners = Inr (Some r)"
    shows "r \<in> set runners \<and> spec_status_code r = Some ''0''"
proof -
  from assms have "next_filter_has_no_result runners = Inr (Some r)"
    by (simp add: select_runner_def)
  then have "has_no_result r = Inr True \<and> r \<in> set runners"
    by (rule next_filter_selected)
  then show ?thesis
    by (simp add: has_no_result_True_iff)
qed

theorem selected_runner_has_no_result_witness:
  "competitor_elem [status_elem ''0'', team_elem ''43'']
     \<in> set [competitor_elem [status_elem ''1'', team_elem ''42''],
             competitor_elem [status_elem ''0'', team_elem ''43'']]
   \<and> spec_status_code (competitor_elem [status_elem ''0'', team_elem ''43'']) = Some ''0''"
proof -
  let ?a = "competitor_elem [status_elem ''1'', team_elem ''42'']"
  let ?b = "competitor_elem [status_elem ''0'', team_elem ''43'']"
  have many: "length [?a, ?b] > 1" by simp
  have sel: "select_runner [?a, ?b] = Inr (Some ?b)"
    by (simp add: select_runner_def has_no_result_def sample_defs xml_defs)
  from selected_runner_has_no_result [OF many sel] show ?thesis .
qed

lemma lookup_response_requests:
  "length (snd (lookup_response w self card_number)) \<le> 1"
  by (simp add: lookup_response_def Let_def split: option.split sum.split)

text \<open>
  A lookup passes at most one request to \<open>urlopen\<close>: there is no retry, whatever fails.
\<close>

theorem lookup_at_most_one_request:
  "length (snd (get_event_race_pre_warning_data w self card_number)) \<le> 1"
proof (cases "lookup_response w self card_number")
  case (Pair res reqs)
  with lookup_response_requests [of w self card_number] show ?thesis
    by (simp add: get_event_race_pre_warning_data_def split: sum.split)
qed

end
